theory Spec2Isabelle
  imports Main "HOL-Library.Multiset"
begin

section \<open>Reelr chat relay: data model\<close>

text \<open>
  The chat service keeps an in-process \<^verbatim>\<open>Map\<close> from user id to socket id
  (\<^verbatim>\<open>onlineUsers\<close>) and two Mongoose collections, \<^verbatim>\<open>Conversation\<close> and
  \<^verbatim>\<open>Message\<close>. User ids and socket ids are JavaScript strings; an \<^verbatim>\<open>ObjectId\<close>
  is modelled as a natural number drawn from a counter, timestamps as milliseconds.
\<close>

type_synonym identity = string
type_synonym handle = string
type_synonym oid = nat

text \<open>\<^verbatim>\<open>conversationSchema\<close>: participants, lastMessage, and the two timestamps.\<close>

record conversation =
  conv_id :: oid
  participants :: "identity list"
  lastMessage :: "oid option"
  conv_createdAt :: nat
  conv_updatedAt :: nat

text \<open>\<^verbatim>\<open>messageSchema\<close>: conversationId, sender, text, seen (default false), timestamps.\<close>

record message =
  msg_id :: oid
  conversationId :: oid
  sender :: identity
  msg_text :: string
  seen :: bool
  createdAt :: nat
  updatedAt :: nat

text \<open>
  The state of the process and of its store. The collections are lists in insertion
  order. The process registers the two models above and no other.
\<close>

record server =
  onlineUsers :: "identity \<rightharpoonup> handle"
  conversations :: "conversation list"
  messages :: "message list"
  next_oid :: oid

definition initial :: server where
  "initial = \<lparr>onlineUsers = Map.empty, conversations = [], messages = [],
     next_oid = 0\<rparr>"

text \<open>
  What a store call of one handler run meets: for each Mongoose call whether it
  rejects (and with which error message), and the clock read by the three writes.
\<close>

record env =
  fail_findOne :: "string option"
  fail_findById :: "string option"
  fail_createConversation :: "string option"
  fail_createMessage :: "string option"
  fail_save :: "string option"
  fail_findMessages :: "string option"
  fail_findConversations :: "string option"
  now_conversation :: nat
  now_message :: nat
  now_save :: nat

definition no_faults :: "nat \<Rightarrow> env" where
  "no_faults t = \<lparr>fail_findOne = None, fail_findById = None,
     fail_createConversation = None, fail_createMessage = None, fail_save = None,
     fail_findMessages = None, fail_findConversations = None,
     now_conversation = t, now_message = t, now_save = t\<rparr>"

text \<open>
  A payload field that a query casts to an \<^verbatim>\<open>ObjectId\<close>: absent or falsy
  (\<^verbatim>\<open>undefined\<close>, \<^verbatim>\<open>null\<close>, the empty string); a truthy value that the cast
  rejects with a \<^verbatim>\<open>CastError\<close> (such as \<^verbatim>\<open>'abc'\<close>); or a truthy value that
  casts, given by the id it casts to.
\<close>

datatype 'a field = Absent | Uncastable | Castable 'a

subsection \<open>Outbound events\<close>

datatype event =
    User_online identity
  | User_offline identity
  | Message_sent oid oid nat
  | Receive_message identity string oid oid nat
  | Message_error string string
  | Messages_loaded "message list" "oid option"
  | Messages_error string
  | Conversations_loaded "conversation list"
  | User_typing identity
  | User_stop_typing identity
  | Online_statuses "string \<rightharpoonup> bool"

text \<open>
  \<^verbatim>\<open>socket.emit\<close> reaches the handler's own socket, \<^verbatim>\<open>io.to(id).emit\<close> the
  room named \<^verbatim>\<open>id\<close>, \<^verbatim>\<open>io.emit\<close> every connection.
\<close>

datatype emission =
    Socket_emit handle event
  | Io_to_emit handle event
  | Io_emit event

section \<open>Store operations\<close>

text \<open>The filter \<^verbatim>\<open>{ participants: { $all: [a, b] } }\<close>.\<close>

definition all_participants :: "identity \<Rightarrow> identity \<Rightarrow> conversation \<Rightarrow> bool" where
  "all_participants a b c = (a \<in> set (participants c) \<and> b \<in> set (participants c))"

definition findOne :: "string option \<Rightarrow> server \<Rightarrow> identity \<Rightarrow> identity \<Rightarrow> string + conversation option" where
  "findOne fault st a b =
     (case fault of Some e \<Rightarrow> Inl e
      | None \<Rightarrow> Inr (find (all_participants a b) (conversations st)))"

definition findById :: "string option \<Rightarrow> server \<Rightarrow> oid \<Rightarrow> string + conversation option" where
  "findById fault st i =
     (case fault of Some e \<Rightarrow> Inl e
      | None \<Rightarrow> Inr (find (\<lambda>c. conv_id c = i) (conversations st)))"

definition create_conversation ::
  "string option \<Rightarrow> nat \<Rightarrow> server \<Rightarrow> identity list \<Rightarrow> string + conversation \<times> server" where
  "create_conversation fault t st ps =
     (case fault of Some e \<Rightarrow> Inl e
      | None \<Rightarrow>
          let c = \<lparr>conv_id = next_oid st, participants = ps, lastMessage = None,
                   conv_createdAt = t, conv_updatedAt = t\<rparr>
          in Inr (c, st\<lparr>conversations := conversations st @ [c], next_oid := Suc (next_oid st)\<rparr>))"

definition create_message ::
  "string option \<Rightarrow> nat \<Rightarrow> server \<Rightarrow> oid \<Rightarrow> identity \<Rightarrow> string \<Rightarrow> string + message \<times> server" where
  "create_message fault t st cid uid txt =
     (case fault of Some e \<Rightarrow> Inl e
      | None \<Rightarrow>
          let m = \<lparr>msg_id = next_oid st, conversationId = cid, sender = uid, msg_text = txt,
                   seen = False, createdAt = t, updatedAt = t\<rparr>
          in Inr (m, st\<lparr>messages := messages st @ [m], next_oid := Suc (next_oid st)\<rparr>))"

text \<open>
  \<^verbatim>\<open>conversation.save()\<close> after \<^verbatim>\<open>conversation.lastMessage = newMessage._id\<close>:
  the stored document with that id gets the modified path and a new \<^verbatim>\<open>updatedAt\<close>.
\<close>

definition save_lastMessage :: "string option \<Rightarrow> nat \<Rightarrow> server \<Rightarrow> oid \<Rightarrow> oid \<Rightarrow> string + server" where
  "save_lastMessage fault t st cid mid =
     (case fault of Some e \<Rightarrow> Inl e
      | None \<Rightarrow> Inr (st\<lparr>conversations :=
          map (\<lambda>c. if conv_id c = cid then c\<lparr>lastMessage := Some mid, conv_updatedAt := t\<rparr> else c)
            (conversations st)\<rparr>))"

text \<open>
  \<^verbatim>\<open>Message.find({conversationId}).sort({createdAt: 1}).limit(100).lean()\<close>: a
  stable ascending sort on the creation time, then the first 100 documents.
\<close>

definition find_messages :: "string option \<Rightarrow> server \<Rightarrow> oid \<Rightarrow> string + message list" where
  "find_messages fault st cid =
     (case fault of Some e \<Rightarrow> Inl e
      | None \<Rightarrow> Inr (take 100 (sort_key createdAt (filter (\<lambda>m. conversationId m = cid) (messages st)))))"

text \<open>
  \<^verbatim>\<open>Conversation.find({participants: userId}).populate("participants", ...).populate("lastMessage").sort({updatedAt: -1}).lean()\<close>.
  An empty result is returned as it is. Populating \<^verbatim>\<open>participants\<close> needs the
  model \<^verbatim>\<open>User\<close> that the schema refers to, which this process never registers:
  with a result to populate the query is rejected (\<^verbatim>\<open>MissingSchemaError\<close>).
\<close>

definition find_conversations :: "string option \<Rightarrow> server \<Rightarrow> identity \<Rightarrow> string + conversation list" where
  "find_conversations fault st uid =
     (case fault of Some e \<Rightarrow> Inl e
      | None \<Rightarrow>
          let found = sort_key (\<lambda>c. - int (conv_updatedAt c))
                        (filter (\<lambda>c. uid \<in> set (participants c)) (conversations st))
          in if found = [] then Inr [] else Inl ''MissingSchemaError'')"

section \<open>Event handlers\<close>

text \<open>
  Every handler takes the socket's id and the user id bound at connection time
  (\<^verbatim>\<open>socket.user._id.toString()\<close>), the payload fields (\<^verbatim>\<open>None\<close> for a field that
  is absent), and returns the emissions in order and the new state. A string field
  is falsy when it is absent or the empty string.

  On connection the socket also joins the room named by the user id; no emission
  of this program addresses that room, so room membership is not part of the state.
\<close>

definition connection :: "handle \<Rightarrow> identity \<Rightarrow> server \<Rightarrow> emission list \<times> server" where
  "connection sid userId st =
     ([Io_emit (User_online userId)], st\<lparr>onlineUsers := (onlineUsers st)(userId \<mapsto> sid)\<rparr>)"

definition disconnect :: "handle \<Rightarrow> identity \<Rightarrow> server \<Rightarrow> emission list \<times> server" where
  "disconnect sid userId st =
     ([Io_emit (User_offline userId)], st\<lparr>onlineUsers := (onlineUsers st)(userId := None)\<rparr>)"

text \<open>The \<^verbatim>\<open>catch\<close> block of \<^verbatim>\<open>send-message\<close>.\<close>

definition send_failed :: "handle \<Rightarrow> string \<Rightarrow> emission list" where
  "send_failed sid err = [Socket_emit sid (Message_error ''Failed to send message'' err)]"

text \<open>
  The two emissions that end a successful \<^verbatim>\<open>send-message\<close>. The recipient's
  socket id is tested for truthiness: the empty string counts as absent.
\<close>

definition deliver ::
  "handle \<Rightarrow> identity \<Rightarrow> identity \<Rightarrow> string \<Rightarrow> conversation \<Rightarrow> message \<Rightarrow> server \<Rightarrow> emission list" where
  "deliver sid userId recipientId txt c m st =
     Socket_emit sid (Message_sent (msg_id m) (conv_id c) (createdAt m)) #
     (case onlineUsers st recipientId of
        None \<Rightarrow> []
      | Some recipientSocketId \<Rightarrow>
          if recipientSocketId = [] then []
          else [Io_to_emit recipientSocketId
                  (Receive_message userId txt (msg_id m) (conv_id c) (createdAt m))])"

definition send_message ::
  "env \<Rightarrow> handle \<Rightarrow> identity \<Rightarrow> string option \<Rightarrow> string option \<Rightarrow> server \<Rightarrow> emission list \<times> server" where
  "send_message e sid userId to message st =
     (case (to, message) of
        (Some recipientId, Some txt) \<Rightarrow>
          if recipientId = [] \<or> txt = [] then ([], st)
          else
            (case findOne (fail_findOne e) st userId recipientId of
               Inl err \<Rightarrow> (send_failed sid err, st)
             | Inr found \<Rightarrow>
                 (case (case found of
                          Some c \<Rightarrow> Inr (c, st)
                        | None \<Rightarrow> create_conversation (fail_createConversation e)
                                    (now_conversation e) st [userId, recipientId]) of
                    Inl err \<Rightarrow> (send_failed sid err, st)
                  | Inr (c, st1) \<Rightarrow>
                      (case create_message (fail_createMessage e) (now_message e) st1
                              (conv_id c) userId txt of
                         Inl err \<Rightarrow> (send_failed sid err, st1)
                       | Inr (m, st2) \<Rightarrow>
                           (case save_lastMessage (fail_save e) (now_save e) st2
                                   (conv_id c) (msg_id m) of
                              Inl err \<Rightarrow> (send_failed sid err, st2)
                            | Inr st3 \<Rightarrow> (deliver sid userId recipientId txt c m st3, st3)))))
      | _ \<Rightarrow> ([], st))"

text \<open>
  \<^verbatim>\<open>load-messages\<close>. The conversation is looked up by id when the payload's
  \<^verbatim>\<open>conversationId\<close> (here \<open>cid\<close>) is truthy, else by the pair when
  \<^verbatim>\<open>recipientId\<close> is truthy, else it stays undefined. A value that cannot be
  cast makes the lookup throw before the store is asked.
\<close>

definition load_failed :: "handle \<Rightarrow> emission list" where
  "load_failed sid = [Socket_emit sid (Messages_error ''Failed to load messages'')]"

definition load_messages ::
  "env \<Rightarrow> handle \<Rightarrow> identity \<Rightarrow> oid field \<Rightarrow> identity field \<Rightarrow> server \<Rightarrow> emission list \<times> server" where
  "load_messages e sid userId cid recipientId st =
     (case (case cid of
              Castable i \<Rightarrow> findById (fail_findById e) st i
            | Uncastable \<Rightarrow> Inl ''CastError''
            | Absent \<Rightarrow>
                (case recipientId of
                   Castable r \<Rightarrow> if r = [] then Inr None else findOne (fail_findOne e) st userId r
                 | Uncastable \<Rightarrow> Inl ''CastError''
                 | Absent \<Rightarrow> Inr None)) of
        Inl err \<Rightarrow> (load_failed sid, st)
      | Inr None \<Rightarrow> ([Socket_emit sid (Messages_loaded [] None)], st)
      | Inr (Some c) \<Rightarrow>
          (case find_messages (fail_findMessages e) st (conv_id c) of
             Inl err \<Rightarrow> (load_failed sid, st)
           | Inr ms \<Rightarrow> ([Socket_emit sid (Messages_loaded ms (Some (conv_id c)))], st)))"

text \<open>\<^verbatim>\<open>get-conversations\<close>: the \<^verbatim>\<open>catch\<close> block only writes to the console.\<close>

definition get_conversations :: "env \<Rightarrow> handle \<Rightarrow> identity \<Rightarrow> server \<Rightarrow> emission list \<times> server" where
  "get_conversations e sid userId st =
     (case find_conversations (fail_findConversations e) st userId of
        Inl err \<Rightarrow> ([], st)
      | Inr cs \<Rightarrow> ([Socket_emit sid (Conversations_loaded cs)], st))"

definition notify :: "server \<Rightarrow> string option \<Rightarrow> event \<Rightarrow> emission list" where
  "notify st recipientId ev =
     (case recipientId of
        None \<Rightarrow> []
      | Some r \<Rightarrow>
          (case onlineUsers st r of
             None \<Rightarrow> []
           | Some recipientSocketId \<Rightarrow>
               if recipientSocketId = [] then [] else [Io_to_emit recipientSocketId ev]))"

definition typing :: "handle \<Rightarrow> identity \<Rightarrow> string option \<Rightarrow> server \<Rightarrow> emission list \<times> server" where
  "typing sid userId recipientId st = (notify st recipientId (User_typing userId), st)"

definition stop_typing :: "handle \<Rightarrow> identity \<Rightarrow> string option \<Rightarrow> server \<Rightarrow> emission list \<times> server" where
  "stop_typing sid userId recipientId st = (notify st recipientId (User_stop_typing userId), st)"

text \<open>
  \<^verbatim>\<open>check-online-status\<close>. The reply is a plain object, modelled as a map from
  property name to value. Assigning a boolean to the property \<^verbatim>\<open>__proto__\<close> of a
  plain object goes to the inherited setter, which ignores it: no own property
  appears. \<^verbatim>\<open>userIds.forEach\<close> throws a \<^verbatim>\<open>TypeError\<close> when the field is not an
  array, and this handler has no \<^verbatim>\<open>try\<close>.
\<close>

definition set_property :: "string \<Rightarrow> bool \<Rightarrow> (string \<rightharpoonup> bool) \<Rightarrow> (string \<rightharpoonup> bool)" where
  "set_property k v obj = (if k = ''__proto__'' then obj else obj(k \<mapsto> v))"

fun forEach_status :: "(identity \<rightharpoonup> handle) \<Rightarrow> string list \<Rightarrow> (string \<rightharpoonup> bool) \<Rightarrow> (string \<rightharpoonup> bool)" where
  "forEach_status reg [] onlineStatuses = onlineStatuses"
| "forEach_status reg (i # ids) onlineStatuses =
     forEach_status reg ids (set_property i (reg i \<noteq> None) onlineStatuses)"

definition check_online_status ::
  "handle \<Rightarrow> identity \<Rightarrow> string list option \<Rightarrow> server \<Rightarrow> string + emission list \<times> server" where
  "check_online_status sid userId userIds st =
     (case userIds of
        None \<Rightarrow> Inl ''TypeError''
      | Some ids \<Rightarrow>
          Inr ([Socket_emit sid (Online_statuses (forEach_status (onlineUsers st) ids Map.empty))], st))"

section \<open>\<^verbatim>\<open>send-message\<close> between its awaits\<close>

text \<open>
  The handler is an \<^verbatim>\<open>async\<close> function: it runs without interruption up to an
  \<^verbatim>\<open>await\<close>, and other handlers run while it waits. A control point names the
  store call the handler waits for and holds the locals it has bound so far; one
  step performs that call and the code that follows it up to the next await.
\<close>

datatype send_pc =
    Await_findOne identity string
  | Await_create identity string
  | Await_message conversation identity string
  | Await_save conversation message identity string
  | Finished

definition send_begin :: "string option \<Rightarrow> string option \<Rightarrow> send_pc" where
  "send_begin to message =
     (case (to, message) of
        (Some recipientId, Some txt) \<Rightarrow>
          if recipientId = [] \<or> txt = [] then Finished else Await_findOne recipientId txt
      | _ \<Rightarrow> Finished)"

fun send_step :: "env \<Rightarrow> handle \<Rightarrow> identity \<Rightarrow> send_pc \<Rightarrow> server \<Rightarrow> send_pc \<times> emission list \<times> server" where
  "send_step e sid userId (Await_findOne r txt) st =
     (case findOne (fail_findOne e) st userId r of
        Inl err \<Rightarrow> (Finished, send_failed sid err, st)
      | Inr None \<Rightarrow> (Await_create r txt, [], st)
      | Inr (Some c) \<Rightarrow> (Await_message c r txt, [], st))"
| "send_step e sid userId (Await_create r txt) st =
     (case create_conversation (fail_createConversation e) (now_conversation e) st [userId, r] of
        Inl err \<Rightarrow> (Finished, send_failed sid err, st)
      | Inr (c, st1) \<Rightarrow> (Await_message c r txt, [], st1))"
| "send_step e sid userId (Await_message c r txt) st =
     (case create_message (fail_createMessage e) (now_message e) st (conv_id c) userId txt of
        Inl err \<Rightarrow> (Finished, send_failed sid err, st)
      | Inr (m, st2) \<Rightarrow> (Await_save c m r txt, [], st2))"
| "send_step e sid userId (Await_save c m r txt) st =
     (case save_lastMessage (fail_save e) (now_save e) st (conv_id c) (msg_id m) of
        Inl err \<Rightarrow> (Finished, send_failed sid err, st)
      | Inr st3 \<Rightarrow> (Finished, deliver sid userId r txt c m st3, st3))"
| "send_step e sid userId Finished st = (Finished, [], st)"

text \<open>A handler run in progress, and a schedule: which run takes the next step.\<close>

record task =
  task_env :: env
  task_sid :: handle
  task_user :: identity
  task_pc :: send_pc

definition start_send :: "env \<Rightarrow> handle \<Rightarrow> identity \<Rightarrow> string option \<Rightarrow> string option \<Rightarrow> task" where
  "start_send e sid userId to message =
     \<lparr>task_env = e, task_sid = sid, task_user = userId, task_pc = send_begin to message\<rparr>"

fun interleave :: "nat list \<Rightarrow> task list \<Rightarrow> server \<Rightarrow> emission list \<times> task list \<times> server" where
  "interleave [] ts st = ([], ts, st)"
| "interleave (i # sched) ts st =
     (if i < length ts then
        (case send_step (task_env (ts ! i)) (task_sid (ts ! i)) (task_user (ts ! i))
                (task_pc (ts ! i)) st of
           (pc', out, st') \<Rightarrow>
             (case interleave sched (ts[i := (ts ! i)\<lparr>task_pc := pc'\<rparr>]) st' of
                (outs, ts', st'') \<Rightarrow> (out @ outs, ts', st'')))
      else interleave sched ts st)"

section \<open>Sequences of calls and the words of the specification\<close>

text \<open>One \<^verbatim>\<open>send-message\<close> event as it arrives: who sends, on which socket, the payload.\<close>

record call =
  call_env :: env
  call_sid :: handle
  call_user :: identity
  call_to :: "string option"
  call_message :: "string option"

fun send_all :: "call list \<Rightarrow> server \<Rightarrow> server" where
  "send_all [] st = st"
| "send_all (c # cs) st =
     send_all cs (snd (send_message (call_env c) (call_sid c) (call_user c) (call_to c)
        (call_message c) st))"

text \<open>The number of conversation records whose participants include both identities.\<close>

definition conversations_of_pair :: "identity \<Rightarrow> identity \<Rightarrow> server \<Rightarrow> nat" where
  "conversations_of_pair a b st = length (filter (all_participants a b) (conversations st))"

text \<open>
  The window the specification names for a long conversation: the newest \<open>n\<close>
  messages by creation time, oldest first.
\<close>

definition most_recent_window :: "nat \<Rightarrow> message list \<Rightarrow> message list" where
  "most_recent_window n ms = (let s = sort_key createdAt ms in drop (length s - n) s)"

text \<open>Two states reached from the empty one, used as concrete inputs below.\<close>

definition bob_online :: server where
  "bob_online = snd (connection ''s2'' ''bob'' initial)"

definition after_hi :: server where
  "after_hi = snd (send_message (no_faults 7) ''s1'' ''alice'' (Some ''bob'') (Some ''hi'') initial)"

text \<open>The store calls of a \<^verbatim>\<open>send-message\<close> run all resolve.\<close>

definition succeeds :: "env \<Rightarrow> bool" where
  "succeeds e = (fail_findOne e = None \<and> fail_createConversation e = None
     \<and> fail_createMessage e = None \<and> fail_save e = None)"

text \<open>
  A \<^verbatim>\<open>send-message\<close> call between two identities, in either direction, with a
  text, whose store calls resolve.
\<close>

definition sends_between :: "identity \<Rightarrow> identity \<Rightarrow> call \<Rightarrow> bool" where
  "sends_between a b c =
     ((call_user c = a \<and> call_to c = Some b \<or> call_user c = b \<and> call_to c = Some a)
      \<and> call_message c \<noteq> None \<and> call_message c \<noteq> Some [] \<and> succeeds (call_env c))"


text \<open>
  Ids come from the counter: every id a stored document carries or refers to has
  been handed out, so no message refers to the id the next document gets.
\<close>

definition allocated :: "server \<Rightarrow> bool" where
  "allocated st = ((\<forall>c \<in> set (conversations st). conv_id c < next_oid st)
     \<and> (\<forall>m \<in> set (messages st). conversationId m < next_oid st))"


text \<open>The window the query computes: the first \<open>n\<close> messages of the ascending order.\<close>

definition earliest_window :: "nat \<Rightarrow> message list \<Rightarrow> message list" where
  "earliest_window n ms = take n (sort_key createdAt ms)"

text \<open>Concrete inputs: a conversation of 101 messages, two calls in a row, two racing runs.\<close>

definition numbered :: "nat \<Rightarrow> message" where
  "numbered k = \<lparr>msg_id = k, conversationId = 0, sender = ''alice'', msg_text = ''m'',
     seen = False, createdAt = k, updatedAt = k\<rparr>"

definition long_chat :: server where
  "long_chat = \<lparr>onlineUsers = Map.empty,
     conversations = [\<lparr>conv_id = 0, participants = [''alice'', ''bob''], lastMessage = Some 101,
        conv_createdAt = 0, conv_updatedAt = 101\<rparr>],
     messages = map numbered [1..<102], next_oid = 102\<rparr>"

definition hi_call :: call where
  "hi_call = \<lparr>call_env = no_faults 5, call_sid = ''s1'', call_user = ''alice'',
     call_to = Some ''bob'', call_message = Some ''hi''\<rparr>"

definition yo_call :: call where
  "yo_call = \<lparr>call_env = no_faults 3, call_sid = ''s2'', call_user = ''bob'',
     call_to = Some ''alice'', call_message = Some ''yo''\<rparr>"

definition racing :: "task list" where
  "racing = [start_send (no_faults 1) ''s1'' ''alice'' (Some ''bob'') (Some ''hi''),
             start_send (no_faults 2) ''s2'' ''bob'' (Some ''alice'') (Some ''hello'')]"









section \<open>Facts about the store operations and \<^verbatim>\<open>send-message\<close>\<close>

lemma send_message_valid:
  assumes "recipientId \<noteq> []" "txt \<noteq> []"
  shows "send_message e sid userId (Some recipientId) (Some txt) st =
    (case findOne (fail_findOne e) st userId recipientId of
       Inl err \<Rightarrow> (send_failed sid err, st)
     | Inr found \<Rightarrow>
         (case (case found of
                  Some c \<Rightarrow> Inr (c, st)
                | None \<Rightarrow> create_conversation (fail_createConversation e)
                            (now_conversation e) st [userId, recipientId]) of
            Inl err \<Rightarrow> (send_failed sid err, st)
          | Inr (c, st1) \<Rightarrow>
              (case create_message (fail_createMessage e) (now_message e) st1
                      (conv_id c) userId txt of
                 Inl err \<Rightarrow> (send_failed sid err, st1)
               | Inr (m, st2) \<Rightarrow>
                   (case save_lastMessage (fail_save e) (now_save e) st2
                           (conv_id c) (msg_id m) of
                      Inl err \<Rightarrow> (send_failed sid err, st2)
                    | Inr st3 \<Rightarrow> (deliver sid userId recipientId txt c m st3, st3)))))"
  using assms by (simp add: send_message_def)

text \<open>The result of a send that meets no rejection, when the pair has a conversation.\<close>

lemma send_message_found:
  assumes "recipientId \<noteq> []" "txt \<noteq> []"
    and "fail_findOne e = None" "fail_createMessage e = None" "fail_save e = None"
    and "find (all_participants userId recipientId) (conversations st) = Some c"
  shows "send_message e sid userId (Some recipientId) (Some txt) st =
    (let m = \<lparr>msg_id = next_oid st, conversationId = conv_id c, sender = userId, msg_text = txt,
                   seen = False, createdAt = now_message e, updatedAt = now_message e\<rparr>;
         st3 = st\<lparr>messages := messages st @ [m], next_oid := Suc (next_oid st),
                 conversations := map (\<lambda>d. if conv_id d = conv_id c
                     then d\<lparr>lastMessage := Some (next_oid st), conv_updatedAt := now_save e\<rparr> else d)
                   (conversations st)\<rparr>
     in (deliver sid userId recipientId txt c m st3, st3))"
  using assms
  by (simp add: send_message_def findOne_def create_message_def save_lastMessage_def Let_def
      cong del: if_weak_cong)

text \<open>The same when the pair has none yet: the conversation is created first.\<close>

lemma send_message_created:
  assumes "recipientId \<noteq> []" "txt \<noteq> []"
    and "fail_findOne e = None" "fail_createConversation e = None"
        "fail_createMessage e = None" "fail_save e = None"
    and "find (all_participants userId recipientId) (conversations st) = None"
  shows "send_message e sid userId (Some recipientId) (Some txt) st =
    (let c = \<lparr>conv_id = next_oid st, participants = [userId, recipientId], lastMessage = None,
                   conv_createdAt = now_conversation e, conv_updatedAt = now_conversation e\<rparr>;
         m = \<lparr>msg_id = Suc (next_oid st), conversationId = next_oid st, sender = userId, msg_text = txt,
                   seen = False, createdAt = now_message e, updatedAt = now_message e\<rparr>;
         st3 = st\<lparr>messages := messages st @ [m], next_oid := Suc (Suc (next_oid st)),
                 conversations := map (\<lambda>d. if conv_id d = next_oid st
                     then d\<lparr>lastMessage := Some (Suc (next_oid st)), conv_updatedAt := now_save e\<rparr> else d)
                   (conversations st @ [c])\<rparr>
     in (deliver sid userId recipientId txt c m st3, st3))"
  using assms
  by (simp add: send_message_def findOne_def create_message_def save_lastMessage_def
      create_conversation_def Let_def cong del: if_weak_cong)

text \<open>A rejected store call of \<^verbatim>\<open>load-messages\<close> reaches its \<^verbatim>\<open>catch\<close> block.\<close>

lemma load_messages_lookup_rejected:
  "fail_findById e = Some err \<Longrightarrow>
   load_messages e sid userId (Castable i) recipientId st = (load_failed sid, st)"
  "fail_findOne e = Some err \<Longrightarrow> r \<noteq> [] \<Longrightarrow>
   load_messages e sid userId Absent (Castable r) st = (load_failed sid, st)"
  "load_messages e sid userId Uncastable recipientId st = (load_failed sid, st)"
  "load_messages e sid userId Absent Uncastable st = (load_failed sid, st)"
  by (simp_all add: load_messages_def findById_def findOne_def)

lemma load_messages_query_rejected:
  "fail_findById e = None \<Longrightarrow> find (\<lambda>c. conv_id c = i) (conversations st) = Some c \<Longrightarrow>
   fail_findMessages e = Some err \<Longrightarrow>
   load_messages e sid userId (Castable i) recipientId st = (load_failed sid, st)"
  by (simp add: load_messages_def findById_def find_messages_def)

lemma after_hi_eq:
  "after_hi = \<lparr>onlineUsers = Map.empty,
     conversations = [\<lparr>conv_id = 0, participants = [''alice'', ''bob''], lastMessage = Some 1,
        conv_createdAt = 7, conv_updatedAt = 7\<rparr>],
     messages = [\<lparr>msg_id = 1, conversationId = 0, sender = ''alice'', msg_text = ''hi'',
        seen = False, createdAt = 7, updatedAt = 7\<rparr>],
     next_oid = 2\<rparr>"
  by (simp add: after_hi_def send_message_def findOne_def create_conversation_def
      create_message_def save_lastMessage_def no_faults_def initial_def all_participants_def
      Let_def)

lemma forEach_status_eq:
  "forEach_status reg ids obj =
     (\<lambda>k. if k \<in> set ids \<and> k \<noteq> ''__proto__'' then Some (reg k \<noteq> None) else obj k)"
  by (induction ids arbitrary: obj) (auto simp: set_property_def fun_eq_iff)

section \<open>Facts about histories and windows\<close>

lemma all_participants_commute: "all_participants a b = all_participants b a"
  by (auto simp: all_participants_def fun_eq_iff)


lemma conversations_of_pair_commute: "conversations_of_pair a b = conversations_of_pair b a"
  by (simp add: conversations_of_pair_def fun_eq_iff all_participants_commute [of a b])

lemma find_map_preserving:
  "(\<And>x. P (f x) = P x) \<Longrightarrow> find P (map f xs) = map_option f (find P xs)"
  by (induction xs) auto

lemma find_append_miss:
  "find P xs = None \<Longrightarrow> find P (xs @ ys) = find P ys"
  by (induction xs) (auto split: if_splits)

lemma all_participants_touch:
  "all_participants a b (if conv_id d = i then d\<lparr>lastMessage := l, conv_updatedAt := t\<rparr> else d)
     = all_participants a b d"
  by (simp add: all_participants_def)

lemma all_participants_new:
  "all_participants a b \<lparr>conv_id = i, participants = [a, b], lastMessage = l,
       conv_createdAt = t, conv_updatedAt = t'\<rparr>"
  by (simp add: all_participants_def)

text \<open>One successful send: the pair has a conversation afterwards, and no second one appears.\<close>

lemma send_message_conversations:
  assumes v: "recipientId \<noteq> []" "body \<noteq> []" and s: "succeeds e"
  shows "find (all_participants userId recipientId)
           (conversations (snd (send_message e sid userId (Some recipientId) (Some body) st))) \<noteq> None
    \<and> conversations_of_pair userId recipientId
         (snd (send_message e sid userId (Some recipientId) (Some body) st))
       = max 1 (conversations_of_pair userId recipientId st)"
proof (cases "find (all_participants userId recipientId) (conversations st)")
  case None
  from s have f: "fail_findOne e = None" "fail_createConversation e = None"
    "fail_createMessage e = None" "fail_save e = None"
    by (simp_all add: succeeds_def)
  from None have n: "filter (all_participants userId recipientId) (conversations st) = []"
    by (auto simp: find_None_iff filter_empty_conv)
  show ?thesis
    unfolding send_message_created [OF v f None] conversations_of_pair_def
    using None n
    by (simp add: Let_def find_map_preserving all_participants_touch find_append_miss
        filter_map comp_def all_participants_new)
next
  case (Some c)
  from s have f: "fail_findOne e = None" "fail_createMessage e = None" "fail_save e = None"
    by (simp_all add: succeeds_def)
  from Some have "filter (all_participants userId recipientId) (conversations st) \<noteq> []"
    by (auto simp: find_Some_iff filter_empty_conv)
  then have "1 \<le> length (filter (all_participants userId recipientId) (conversations st))"
    by (cases "filter (all_participants userId recipientId) (conversations st)") simp_all
  then show ?thesis
    unfolding send_message_found [OF v f Some] conversations_of_pair_def
    using Some
    by (simp add: Let_def find_map_preserving all_participants_touch filter_map comp_def)
qed


lemma send_call_conversations:
  assumes ab: "a \<noteq> []" "b \<noteq> []" and c: "sends_between a b c"
  shows "find (all_participants a b) (conversations (send_all [c] st)) \<noteq> None
    \<and> conversations_of_pair a b (send_all [c] st) = max 1 (conversations_of_pair a b st)"
proof -
  from c obtain body where t: "call_message c = Some body" "body \<noteq> []"
    and s: "succeeds (call_env c)"
    by (auto simp: sends_between_def)
  from c consider "call_user c = a" "call_to c = Some b" | "call_user c = b" "call_to c = Some a"
    by (auto simp: sends_between_def)
  then show ?thesis
  proof cases
    case 1
    with t send_message_conversations [OF ab(2) t(2) s, of a "call_sid c" st]
    show ?thesis by simp
  next
    case 2
    with t send_message_conversations [OF ab(1) t(2) s, of b "call_sid c" st]
    show ?thesis
      by (simp add: all_participants_commute [of b a] conversations_of_pair_commute [of b a])
  qed
qed




text \<open>The id discipline holds at the start and every \<^verbatim>\<open>send-message\<close> run keeps it.\<close>

lemma allocated_initial: "allocated initial"
  by (simp add: allocated_def initial_def)


lemma allocated_send_message:
  "allocated st \<Longrightarrow> allocated (snd (send_message e sid userId to message st))"
  by (auto simp: allocated_def send_message_def findOne_def create_conversation_def
      create_message_def save_lastMessage_def Let_def find_Some_iff less_Suc_eq
      split: option.splits sum.splits if_splits)

















text \<open>Run alone, the steps of a handler run are the handler.\<close>

lemma send_steps_alone:
  "interleave [0, 0, 0, 0] [start_send e sid userId to message] st =
     (fst (send_message e sid userId to message st),
      [\<lparr>task_env = e, task_sid = sid, task_user = userId, task_pc = Finished\<rparr>],
      snd (send_message e sid userId to message st))"
  by (auto simp: start_send_def send_begin_def send_message_def
      split: option.splits sum.splits prod.splits)

lemma sort_numbered: "sort_key createdAt (map numbered [i..<j]) = map numbered [i..<j]"
  by (rule sort_key_id_if_sorted) (simp add: comp_def numbered_def)

lemma filter_numbered: "filter (\<lambda>m. conversationId m = 0) (map numbered xs) = map numbered xs"
  by (induction xs) (simp_all add: numbered_def)

lemma take_numbered:
  "i + k \<le> j \<Longrightarrow> l = i + k \<Longrightarrow> take k (map numbered [i..<j]) = map numbered [i..<l]"
  by (simp add: take_map)

lemma drop_numbered:
  "l = i + k \<Longrightarrow> drop k (map numbered [i..<j]) = map numbered [l..<j]"
  by (simp add: drop_map)

lemma long_chat_loaded:
  "load_messages (no_faults 200) ''s1'' ''alice'' (Castable 0) Absent long_chat
     = ([Socket_emit ''s1'' (Messages_loaded (map numbered [1..<101]) (Some 0))], long_chat)"
proof -
  have c: "conversations long_chat = [\<lparr>conv_id = 0, participants = [''alice'', ''bob''],
        lastMessage = Some 101, conv_createdAt = 0, conv_updatedAt = 101\<rparr>]"
    and m: "messages long_chat = map numbered [1..<102]"
    by (simp_all add: long_chat_def)
  have "take 100 (map numbered [1..<102]) = map numbered [1..<101]"
    by (rule take_numbered) simp_all
  then show ?thesis
    by (simp add: load_messages_def findById_def find_messages_def no_faults_def c m
        filter_numbered sort_numbered)
qed

lemma long_chat_recent:
  "most_recent_window 100 (messages long_chat) = map numbered [2..<102]"
proof -
  have "drop 1 (map numbered [1..<102]) = map numbered [2..<102]"
    by (rule drop_numbered) simp
  then show ?thesis
    by (simp add: most_recent_window_def long_chat_def sort_numbered Let_def)
qed

lemma earliest_window_oldest:
  "\<forall>x \<in> set (earliest_window n ms). \<forall>y \<in># mset ms - mset (earliest_window n ms).
      createdAt x \<le> createdAt y"
proof -
  let ?s = "sort_key createdAt ms"
  have "mset ms = mset (take n ?s) + mset (drop n ?s)"
    by (metis append_take_drop_id mset_append mset_sort)
  then have d: "mset ms - mset (earliest_window n ms) = mset (drop n ?s)"
    by (simp add: earliest_window_def)
  have "sorted (map createdAt (take n ?s @ drop n ?s))" by simp
  then have "\<forall>x \<in> set (take n ?s). \<forall>y \<in> set (drop n ?s). createdAt x \<le> createdAt y"
    unfolding map_append sorted_append by auto
  with d show ?thesis by (simp add: earliest_window_def)
qed

section \<open>Presence registry\<close>

text \<open>
  C1 (as the code has it). The \<^verbatim>\<open>disconnect\<close> handler deletes the entry of the user
  id whichever socket id it holds and always broadcasts \<^verbatim>\<open>user-offline\<close>. So after
  a second connection of the same identity has overwritten the entry, the disconnect
  of the first connection leaves the identity without an entry and announces it offline.
\<close>

theorem disconnect_unconditional:
  "onlineUsers (snd (disconnect sid userId st)) userId = None
   \<and> fst (disconnect sid userId st) = [Io_emit (User_offline userId)]
   \<and> onlineUsers (snd (disconnect oldHandle userId
        (snd (connection newHandle userId (snd (connection oldHandle userId st)))))) userId = None
   \<and> fst (disconnect oldHandle userId
        (snd (connection newHandle userId (snd (connection oldHandle userId st)))))
       = [Io_emit (User_offline userId)]"
  by (simp add: disconnect_def connection_def)

text \<open>
  The stale disconnect at a concrete input: the newer handle is gone from the registry
  and the offline broadcast is among the emissions.
\<close>

theorem stale_disconnect_counterexample:
  "onlineUsers (snd (disconnect ''old'' ''u''
      (snd (connection ''new'' ''u'' (snd (connection ''old'' ''u'' initial)))))) ''u''
     \<noteq> Some ''new''
   \<and> Io_emit (User_offline ''u'') \<in> set (fst (disconnect ''old'' ''u''
      (snd (connection ''new'' ''u'' (snd (connection ''old'' ''u'' initial))))))"
  by (simp add: disconnect_def connection_def initial_def)

section \<open>Failures at the event boundary\<close>

text \<open>
  C3. A rejected store call in \<^verbatim>\<open>get-conversations\<close> is caught, and nothing is
  emitted: the handler returns with no outbound event and the state as it was, where
  \<^verbatim>\<open>send-message\<close> and \<^verbatim>\<open>load-messages\<close> emit their error event.
\<close>

theorem get_conversations_failure_silent:
  "get_conversations ((no_faults 0)\<lparr>fail_findConversations := Some ''connection lost''\<rparr>)
      ''s1'' ''alice'' after_hi = ([], after_hi)"
  by (simp add: get_conversations_def find_conversations_def)

text \<open>
  C4 (as the code has it). A \<^verbatim>\<open>send-message\<close> whose \<^verbatim>\<open>to\<close> or \<^verbatim>\<open>message\<close> is
  missing or empty emits nothing at all and leaves the registry and the store as
  they were: the rejection is only written to the console.
\<close>

theorem send_message_invalid_silent:
  "to = None \<or> to = Some [] \<or> message = None \<or> message = Some [] \<Longrightarrow>
   send_message e sid userId to message st = ([], st)"
  by (auto simp: send_message_def split: option.splits)

theorem send_message_invalid_silent_witness:
  "(Some ''bob'' = None \<or> Some ''bob'' = Some [] \<or> Some [] = (None :: string option)
      \<or> Some [] = Some ([] :: string))
   \<and> send_message (no_faults 0) ''s1'' ''alice'' (Some ''bob'') (Some []) initial = ([], initial)"
  using send_message_invalid_silent [of "Some ''bob''" "Some []" "no_faults 0" "''s1''" "''alice''" initial]
  by simp

text \<open>No \<^verbatim>\<open>message-error\<close> reaches the sender, for an empty text and for a missing recipient.\<close>

theorem send_message_invalid_counterexample:
  "fst (send_message (no_faults 0) ''s1'' ''alice'' (Some ''bob'') (Some '''') initial) = []
   \<and> fst (send_message (no_faults 0) ''s1'' ''alice'' None (Some ''hi'') initial) = []"
  by (simp add: send_message_def)

text \<open>
  C7 (as the code has it). When a store call of a valid \<^verbatim>\<open>send-message\<close> is
  rejected, the only emission is \<^verbatim>\<open>message-error\<close> to the sender with the error's
  message as detail. The registry is unchanged; the conversations are unchanged or
  extended by the empty conversation created for the pair; the messages are
  unchanged unless the rejected call is the \<^verbatim>\<open>save\<close> of the last-message pointer,
  in which case the message created just before it stays in the store.
\<close>

theorem send_message_store_failure:
  assumes valid: "recipientId \<noteq> []" "txt \<noteq> []"
    and fails: "fail_findOne e \<noteq> None
      \<or> (find (all_participants userId recipientId) (conversations st) = None
           \<and> fail_createConversation e \<noteq> None)
      \<or> fail_createMessage e \<noteq> None
      \<or> fail_save e \<noteq> None"
    and res: "send_message e sid userId (Some recipientId) (Some txt) st = (out, st')"
  shows "\<exists>err. out = [Socket_emit sid (Message_error ''Failed to send message'' err)]
     \<and> Some err \<in> {fail_findOne e, fail_createConversation e, fail_createMessage e, fail_save e}
     \<and> onlineUsers st' = onlineUsers st
     \<and> (conversations st' = conversations st
          \<or> find (all_participants userId recipientId) (conversations st) = None
            \<and> conversations st' = conversations st @
                 [\<lparr>conv_id = next_oid st, participants = [userId, recipientId],
                   lastMessage = None, conv_createdAt = now_conversation e,
                   conv_updatedAt = now_conversation e\<rparr>])
     \<and> (messages st' = messages st
          \<or> fail_save e = Some err
            \<and> (\<exists>m. messages st' = messages st @ [m] \<and> sender m = userId \<and> msg_text m = txt))"
  using fails res unfolding send_message_valid [OF valid]
  by (auto simp: findOne_def create_conversation_def create_message_def save_lastMessage_def
      send_failed_def Let_def
      split: option.splits sum.splits prod.splits if_splits)

theorem send_message_store_failure_witness:
  "''bob'' \<noteq> [] \<and> ''hi'' \<noteq> []
   \<and> fail_createMessage ((no_faults 7)\<lparr>fail_createMessage := Some ''disk full''\<rparr>) \<noteq> None
   \<and> fst (send_message ((no_faults 7)\<lparr>fail_createMessage := Some ''disk full''\<rparr>)
        ''s1'' ''alice'' (Some ''bob'') (Some ''hi'') initial)
      = [Socket_emit ''s1'' (Message_error ''Failed to send message'' ''disk full'')]
   \<and> messages (snd (send_message ((no_faults 7)\<lparr>fail_createMessage := Some ''disk full''\<rparr>)
        ''s1'' ''alice'' (Some ''bob'') (Some ''hi'') initial)) = []"
proof -
  let ?e = "(no_faults 7)\<lparr>fail_createMessage := Some ''disk full''\<rparr>"
  let ?r = "send_message ?e ''s1'' ''alice'' (Some ''bob'') (Some ''hi'') initial"
  have h1: "''bob'' \<noteq> []" and h2: "''hi'' \<noteq> []" by simp_all
  have h3: "fail_findOne ?e \<noteq> None
      \<or> (find (all_participants ''alice'' ''bob'') (conversations initial) = None
           \<and> fail_createConversation ?e \<noteq> None)
      \<or> fail_createMessage ?e \<noteq> None
      \<or> fail_save ?e \<noteq> None" by simp
  have h4: "?r = (fst ?r, snd ?r)" by simp
  from send_message_store_failure [OF h1 h2 h3 h4]
  have "fst ?r = [Socket_emit ''s1'' (Message_error ''Failed to send message'' ''disk full'')]
    \<and> messages (snd ?r) = []"
    by (auto simp: no_faults_def initial_def)
  then show ?thesis by simp
qed

text \<open>A rejected \<^verbatim>\<open>save\<close> leaves more than an empty conversation: the message is stored.\<close>

theorem send_message_save_failure_counterexample:
  "messages (snd (send_message ((no_faults 7)\<lparr>fail_save := Some ''write failed''\<rparr>)
      ''s1'' ''alice'' (Some ''bob'') (Some ''hi'') initial))
   = [\<lparr>msg_id = 1, conversationId = 0, sender = ''alice'', msg_text = ''hi'',
        seen = False, createdAt = 7, updatedAt = 7\<rparr>]
   \<and> fst (send_message ((no_faults 7)\<lparr>fail_save := Some ''write failed''\<rparr>)
      ''s1'' ''alice'' (Some ''bob'') (Some ''hi'') initial)
   = [Socket_emit ''s1'' (Message_error ''Failed to send message'' ''write failed'')]"
  by (simp add: send_message_def findOne_def create_conversation_def create_message_def
      save_lastMessage_def no_faults_def initial_def send_failed_def Let_def)

section \<open>Delivery\<close>

text \<open>
  C8. A valid \<^verbatim>\<open>send-message\<close> whose store calls all succeed appends one message
  to the store, and emits \<^verbatim>\<open>message-sent\<close> with that message's id, conversation id
  and creation time on the sender's own socket, whether or not the recipient is
  registered. When the registry has a socket id for the recipient, one
  \<^verbatim>\<open>receive-message\<close> follows, addressed to that socket id; when it has none,
  nothing else is emitted. Socket ids are never the empty string.
\<close>

theorem send_message_delivery:
  assumes valid: "recipientId \<noteq> []" "txt \<noteq> []"
    and ok: "fail_findOne e = None"
      "find (all_participants userId recipientId) (conversations st) = None
         \<longrightarrow> fail_createConversation e = None"
      "fail_createMessage e = None" "fail_save e = None"
    and handle: "onlineUsers st recipientId \<noteq> Some []"
    and res: "send_message e sid userId (Some recipientId) (Some txt) st = (out, st')"
  shows "\<exists>m. messages st' = messages st @ [m]
     \<and> sender m = userId \<and> msg_text m = txt \<and> createdAt m = now_message e
     \<and> (\<exists>c \<in> set (conversations st'). conv_id c = conversationId m
            \<and> all_participants userId recipientId c \<and> lastMessage c = Some (msg_id m))
     \<and> onlineUsers st' = onlineUsers st
     \<and> out = Socket_emit sid (Message_sent (msg_id m) (conversationId m) (createdAt m)) #
         (case onlineUsers st recipientId of
            None \<Rightarrow> []
          | Some h \<Rightarrow> [Io_to_emit h
               (Receive_message userId txt (msg_id m) (conversationId m) (createdAt m))])"
proof (cases "find (all_participants userId recipientId) (conversations st)")
  case None
  with ok have c: "fail_createConversation e = None" by simp
  show ?thesis
    using res handle unfolding send_message_created [OF valid ok(1) c ok(3,4) None]
    by (auto simp: Let_def deliver_def all_participants_def split: option.splits)
next
  case (Some c)
  then have c: "c \<in> set (conversations st)" "all_participants userId recipientId c"
    by (auto simp: find_Some_iff)
  let ?c' = "c\<lparr>lastMessage := Some (next_oid st), conv_updatedAt := now_save e\<rparr>"
  let ?m = "\<lparr>msg_id = next_oid st, conversationId = conv_id c, sender = userId, msg_text = txt,
                   seen = False, createdAt = now_message e, updatedAt = now_message e\<rparr>"
  from c(1) have "?c' \<in> set (conversations st')"
    using res unfolding send_message_found [OF valid ok(1,3,4) Some]
    by (auto simp: Let_def image_iff intro!: bexI [of _ c])
  moreover have "all_participants userId recipientId ?c'"
    using c(2) by (simp add: all_participants_def)
  ultimately have conv: "\<exists>d \<in> set (conversations st'). conv_id d = conv_id c
            \<and> all_participants userId recipientId d \<and> lastMessage d = Some (next_oid st)"
    by (intro bexI [of _ ?c']) simp_all
  have msgs: "messages st' = messages st @ [?m]" and reg: "onlineUsers st' = onlineUsers st"
    using res unfolding send_message_found [OF valid ok(1,3,4) Some]
    by (auto simp: Let_def)
  have out: "out = Socket_emit sid (Message_sent (msg_id ?m) (conversationId ?m) (createdAt ?m)) #
         (case onlineUsers st recipientId of
            None \<Rightarrow> []
          | Some h \<Rightarrow> [Io_to_emit h
               (Receive_message userId txt (msg_id ?m) (conversationId ?m) (createdAt ?m))])"
    using res handle unfolding send_message_found [OF valid ok(1,3,4) Some]
    by (auto simp: Let_def deliver_def split: option.splits)
  show ?thesis
    by (rule exI [of _ ?m]) (use conv msgs reg out in simp)
qed

theorem send_message_delivery_witness:
  "''bob'' \<noteq> [] \<and> ''hi'' \<noteq> [] \<and> onlineUsers bob_online ''bob'' = Some ''s2''
   \<and> fst (send_message (no_faults 7) ''s1'' ''alice'' (Some ''bob'') (Some ''hi'') bob_online)
      = [Socket_emit ''s1'' (Message_sent 1 0 7),
         Io_to_emit ''s2'' (Receive_message ''alice'' ''hi'' 1 0 7)]
   \<and> fst (send_message (no_faults 7) ''s1'' ''alice'' (Some ''bob'') (Some ''hi'') initial)
      = [Socket_emit ''s1'' (Message_sent 1 0 7)]"
proof -
  let ?r = "send_message (no_faults 7) ''s1'' ''alice'' (Some ''bob'') (Some ''hi'') bob_online"
  let ?q = "send_message (no_faults 7) ''s1'' ''alice'' (Some ''bob'') (Some ''hi'') initial"
  have v: "''bob'' \<noteq> []" "''hi'' \<noteq> []" by simp_all
  have ok: "fail_findOne (no_faults 7) = None" "fail_createMessage (no_faults 7) = None"
    "fail_save (no_faults 7) = None"
    by (simp_all add: no_faults_def)
  have okc: "find (all_participants ''alice'' ''bob'') (conversations st) = None
         \<longrightarrow> fail_createConversation (no_faults 7) = None" for st :: server
    by (simp add: no_faults_def)
  have reg: "onlineUsers bob_online ''bob'' = Some ''s2''" "onlineUsers initial ''bob'' = None"
    by (simp_all add: bob_online_def connection_def initial_def)
  then have h: "onlineUsers bob_online ''bob'' \<noteq> Some []" "onlineUsers initial ''bob'' \<noteq> Some []"
    by simp_all
  have st: "messages (snd ?r) = [\<lparr>msg_id = 1, conversationId = 0, sender = ''alice'',
        msg_text = ''hi'', seen = False, createdAt = 7, updatedAt = 7\<rparr>]"
       "messages (snd ?q) = [\<lparr>msg_id = 1, conversationId = 0, sender = ''alice'',
        msg_text = ''hi'', seen = False, createdAt = 7, updatedAt = 7\<rparr>]"
    by (simp_all add: send_message_def findOne_def create_conversation_def create_message_def
      save_lastMessage_def no_faults_def initial_def bob_online_def connection_def Let_def)
  have r: "?r = (fst ?r, snd ?r)" and q: "?q = (fst ?q, snd ?q)" by simp_all
  from send_message_delivery [OF v ok(1) okc ok(2,3) h(1) r] st(1) reg(1)
  have a: "fst ?r = [Socket_emit ''s1'' (Message_sent 1 0 7),
         Io_to_emit ''s2'' (Receive_message ''alice'' ''hi'' 1 0 7)]"
    by (auto simp: initial_def bob_online_def connection_def)
  from send_message_delivery [OF v ok(1) okc ok(2,3) h(2) q] st(2) reg(2)
  have b: "fst ?q = [Socket_emit ''s1'' (Message_sent 1 0 7)]"
    by (auto simp: initial_def)
  from v reg(1) a b show ?thesis by simp
qed

section \<open>Presence queries\<close>

text \<open>
  C9. For a list of identities, \<^verbatim>\<open>check-online-status\<close> returns normally with
  one \<^verbatim>\<open>online-statuses\<close> emission on the asking socket; its object has exactly
  the listed identities as keys, and the value at each is true exactly when the
  registry has an entry for it. An identity is the string of a store key, which
  is never the reserved property name \<^verbatim>\<open>__proto__\<close>.
\<close>

theorem check_online_status_mapping:
  assumes "''__proto__'' \<notin> set ids"
  shows "\<exists>statuses. check_online_status sid userId (Some ids) st =
            Inr ([Socket_emit sid (Online_statuses statuses)], st)
         \<and> dom statuses = set ids
         \<and> (\<forall>i \<in> set ids. statuses i = Some (i \<in> dom (onlineUsers st)))"
proof -
  let ?s = "forEach_status (onlineUsers st) ids Map.empty"
  have "check_online_status sid userId (Some ids) st = Inr ([Socket_emit sid (Online_statuses ?s)], st)"
    by (simp add: check_online_status_def)
  moreover have "dom ?s = set ids"
    using assms by (auto simp: forEach_status_eq dom_def)
  moreover have "\<forall>i \<in> set ids. ?s i = Some (i \<in> dom (onlineUsers st))"
    using assms by (auto simp: forEach_status_eq)
  ultimately show ?thesis by blast
qed

theorem check_online_status_mapping_witness:
  "''__proto__'' \<notin> set [''bob'', ''neverSeen''] \<and>
   (\<exists>statuses. check_online_status ''s1'' ''alice'' (Some [''bob'', ''neverSeen'']) bob_online =
            Inr ([Socket_emit ''s1'' (Online_statuses statuses)], bob_online)
         \<and> statuses ''bob'' = Some True \<and> statuses ''neverSeen'' = Some False)"
proof -
  have h: "''__proto__'' \<notin> set [''bob'', ''neverSeen'']" by simp
  from check_online_status_mapping [OF h, of "''s1''" "''alice''" bob_online]
  obtain statuses where
    s: "check_online_status ''s1'' ''alice'' (Some [''bob'', ''neverSeen'']) bob_online =
            Inr ([Socket_emit ''s1'' (Online_statuses statuses)], bob_online)"
    and d: "\<forall>i \<in> set [''bob'', ''neverSeen''].
        statuses i = Some (i \<in> dom (onlineUsers bob_online))"
    by blast
  from d have "statuses ''bob'' = Some True" "statuses ''neverSeen'' = Some False"
    by (simp_all add: bob_online_def connection_def initial_def)
  with h s show ?thesis by blast
qed

section \<open>History\<close>

text \<open>
  C10 (as the code has it). When neither a conversation with the given id nor one
  for the pair of the user and the given recipient exists (a field that is absent
  or empty resolves to nothing), \<^verbatim>\<open>load-messages\<close> leaves the store as it is and
  emits one event. That event is \<^verbatim>\<open>messages-loaded\<close> with the empty list and no
  conversation id when the lookup the handler performs is not rejected, and
  \<^verbatim>\<open>messages-error\<close> when it is: for a value that cannot be cast to an id, or a
  rejection by the store.
\<close>

theorem load_messages_unresolved:
  assumes "\<forall>i. cid = Castable i \<longrightarrow> (\<forall>c \<in> set (conversations st). conv_id c \<noteq> i)"
    and "\<forall>r. recipientId = Castable r \<longrightarrow> r \<noteq> [] \<longrightarrow>
           (\<forall>c \<in> set (conversations st). \<not> all_participants userId r c)"
  shows "load_messages e sid userId cid recipientId st =
     (if cid = Uncastable
         \<or> (\<exists>i. cid = Castable i) \<and> fail_findById e \<noteq> None
         \<or> cid = Absent \<and> recipientId = Uncastable
         \<or> cid = Absent \<and> (\<exists>r. recipientId = Castable r \<and> r \<noteq> []) \<and> fail_findOne e \<noteq> None
      then [Socket_emit sid (Messages_error ''Failed to load messages'')]
      else [Socket_emit sid (Messages_loaded [] None)], st)"
proof (cases cid)
  case (Castable i)
  with assms(1) have "find (\<lambda>c. conv_id c = i) (conversations st) = None"
    by (simp add: find_None_iff)
  with Castable show ?thesis
    by (auto simp: load_messages_def findById_def load_failed_def split: option.splits)
next
  case Uncastable
  then show ?thesis by (simp add: load_messages_def load_failed_def)
next
  case Absent
  show ?thesis
  proof (cases recipientId)
    case (Castable r)
    with assms(2) have "r \<noteq> [] \<Longrightarrow> find (all_participants userId r) (conversations st) = None"
      by (simp add: find_None_iff)
    with Absent Castable show ?thesis
      by (auto simp: load_messages_def findOne_def load_failed_def split: option.splits)
  qed (use Absent in \<open>simp_all add: load_messages_def load_failed_def\<close>)
qed

theorem load_messages_unresolved_witness:
  "map conv_id (conversations after_hi) = [0]
   \<and> map participants (conversations after_hi) = [[''alice'', ''bob'']]
   \<and> load_messages (no_faults 9) ''s3'' ''carol'' (Castable 5) (Castable ''bob'') after_hi
       = ([Socket_emit ''s3'' (Messages_loaded [] None)], after_hi)
   \<and> load_messages (no_faults 9) ''s3'' ''carol'' Absent Absent after_hi
       = ([Socket_emit ''s3'' (Messages_loaded [] None)], after_hi)
   \<and> load_messages (no_faults 9) ''s3'' ''carol'' Absent Uncastable after_hi
       = ([Socket_emit ''s3'' (Messages_error ''Failed to load messages'')], after_hi)"
proof -
  have a: "\<forall>i. Castable 5 = Castable i \<longrightarrow> (\<forall>c \<in> set (conversations after_hi). conv_id c \<noteq> i)"
    and b: "\<forall>r. Castable ''bob'' = Castable r \<longrightarrow> r \<noteq> [] \<longrightarrow>
           (\<forall>c \<in> set (conversations after_hi). \<not> all_participants ''carol'' r c)"
    by (simp_all add: after_hi_eq all_participants_def)
  have f: "fail_findById (no_faults 9) = None" "fail_findOne (no_faults 9) = None"
    by (simp_all add: no_faults_def)
  have "load_messages (no_faults 9) ''s3'' ''carol'' (Castable 5) (Castable ''bob'') after_hi
       = ([Socket_emit ''s3'' (Messages_loaded [] None)], after_hi)"
    using load_messages_unresolved [OF a b, of "no_faults 9" "''s3''"] f by simp
  moreover have "load_messages (no_faults 9) ''s3'' ''carol'' Absent Absent after_hi
       = ([Socket_emit ''s3'' (Messages_loaded [] None)], after_hi)"
    using load_messages_unresolved [of Absent after_hi Absent "''carol''" "no_faults 9" "''s3''"]
    by simp
  moreover have "load_messages (no_faults 9) ''s3'' ''carol'' Absent Uncastable after_hi
       = ([Socket_emit ''s3'' (Messages_error ''Failed to load messages'')], after_hi)"
    using load_messages_unresolved [of Absent after_hi Uncastable "''carol''" "no_faults 9" "''s3''"]
    by simp
  moreover have "map conv_id (conversations after_hi) = [0]"
    "map participants (conversations after_hi) = [[''alice'', ''bob'']]"
    by (simp_all add: after_hi_eq)
  ultimately show ?thesis by simp
qed

text \<open>
  A conversation id that cannot be cast resolves to no conversation, and the reply
  is \<^verbatim>\<open>messages-error\<close>, not an empty \<^verbatim>\<open>messages-loaded\<close>.
\<close>

theorem load_messages_uncastable_counterexample:
  "load_messages (no_faults 9) ''s3'' ''carol'' Uncastable Absent after_hi
     = ([Socket_emit ''s3'' (Messages_error ''Failed to load messages'')], after_hi)"
  by (simp add: load_messages_def load_failed_def)

section \<open>Conversation creation\<close>

text \<open>
  C2 (as the code has it). From a store with no conversation for the pair, two
  successful \<^verbatim>\<open>send-message\<close> calls between the two identities that run one after
  the other leave exactly one conversation for the pair.
\<close>

theorem two_sends_one_conversation:
  assumes ab: "a \<noteq> []" "b \<noteq> []"
    and none: "conversations_of_pair a b st = 0"
    and calls: "sends_between a b c1" "sends_between a b c2"
  shows "conversations_of_pair a b (send_all [c1, c2] st) = 1"
proof -
  from send_call_conversations [OF ab calls(1), of st] none
  have "conversations_of_pair a b (send_all [c1] st) = 1" by simp
  with send_call_conversations [OF ab calls(2), of "send_all [c1] st"]
  have "conversations_of_pair a b (send_all [c2] (send_all [c1] st)) = 1" by simp
  then show ?thesis by simp
qed

theorem two_sends_one_conversation_witness:
  "''alice'' \<noteq> [] \<and> ''bob'' \<noteq> [] \<and> conversations_of_pair ''alice'' ''bob'' initial = 0
   \<and> sends_between ''alice'' ''bob'' hi_call \<and> sends_between ''alice'' ''bob'' yo_call
   \<and> conversations_of_pair ''alice'' ''bob'' (send_all [hi_call, yo_call] initial) = 1"
proof -
  have ab: "''alice'' \<noteq> []" "''bob'' \<noteq> []" by simp_all
  have n: "conversations_of_pair ''alice'' ''bob'' initial = 0"
    by (simp add: conversations_of_pair_def initial_def)
  have c: "sends_between ''alice'' ''bob'' hi_call" "sends_between ''alice'' ''bob'' yo_call"
    by (simp_all add: sends_between_def succeeds_def hi_call_def yo_call_def no_faults_def)
  from two_sends_one_conversation [OF ab n c] ab n c show ?thesis by simp
qed

text \<open>
  Two runs whose lookups both happen before either creation: each finds nothing
  and creates, and the pair ends with two conversations.
\<close>

theorem concurrent_sends_counterexample:
  "conversations_of_pair ''alice'' ''bob''
     (snd (snd (interleave [0, 1, 0, 1, 0, 1, 0, 1] racing initial))) = 2"
  by (simp add: racing_def start_send_def send_begin_def initial_def no_faults_def
      findOne_def create_conversation_def create_message_def save_lastMessage_def
      conversations_of_pair_def all_participants_def Let_def deliver_def)

section \<open>The history window\<close>

text \<open>
  C5 (as the code has it). For a conversation holding more than 100 messages,
  \<^verbatim>\<open>load-messages\<close> returns the first 100 of the ascending order by creation
  time: 100 messages, oldest first, none of them newer than a message left out.
\<close>

theorem load_messages_earliest_window:
  assumes res: "cid = Castable i \<and> fail_findById e = None
        \<and> find (\<lambda>c. conv_id c = i) (conversations st) = Some c
      \<or> cid = Absent \<and> recipientId = Castable r \<and> r \<noteq> [] \<and> fail_findOne e = None
        \<and> find (all_participants userId r) (conversations st) = Some c"
    and ok: "fail_findMessages e = None"
    and long: "100 < length (filter (\<lambda>m. conversationId m = conv_id c) (messages st))"
  shows "\<exists>ms. load_messages e sid userId cid recipientId st =
        ([Socket_emit sid (Messages_loaded ms (Some (conv_id c)))], st)
     \<and> ms = earliest_window 100 (filter (\<lambda>m. conversationId m = conv_id c) (messages st))
     \<and> length ms = 100 \<and> sorted (map createdAt ms)
     \<and> (\<forall>x \<in> set ms. \<forall>y \<in># mset (filter (\<lambda>m. conversationId m = conv_id c) (messages st)) - mset ms.
            createdAt x \<le> createdAt y)"
proof -
  let ?all = "filter (\<lambda>m. conversationId m = conv_id c) (messages st)"
  let ?ms = "earliest_window 100 ?all"
  from res ok have "load_messages e sid userId cid recipientId st =
        ([Socket_emit sid (Messages_loaded ?ms (Some (conv_id c)))], st)"
    by (auto simp: load_messages_def findById_def findOne_def find_messages_def
        earliest_window_def)
  moreover from long have "length ?ms = 100" by (simp add: earliest_window_def)
  moreover have "sorted (map createdAt ?ms)"
    by (simp add: earliest_window_def take_map [symmetric])
  ultimately show ?thesis using earliest_window_oldest [of 100 ?all] by blast
qed

theorem load_messages_earliest_window_witness:
  "fail_findById (no_faults 200) = None
   \<and> find (\<lambda>c. conv_id c = 0) (conversations long_chat) = Some \<lparr>conv_id = 0,
        participants = [''alice'', ''bob''], lastMessage = Some 101,
        conv_createdAt = 0, conv_updatedAt = 101\<rparr>
   \<and> fail_findMessages (no_faults 200) = None
   \<and> 100 < length (filter (\<lambda>m. conversationId m = 0) (messages long_chat))
   \<and> (\<exists>ms. load_messages (no_faults 200) ''s1'' ''alice'' (Castable 0) Absent long_chat =
        ([Socket_emit ''s1'' (Messages_loaded ms (Some 0))], long_chat)
      \<and> length ms = 100 \<and> sorted (map createdAt ms))"
proof -
  let ?c = "\<lparr>conv_id = 0, participants = [''alice'', ''bob''], lastMessage = Some 101,
        conv_createdAt = 0, conv_updatedAt = 101\<rparr>"
  have f: "fail_findById (no_faults 200) = None" "fail_findMessages (no_faults 200) = None"
    by (simp_all add: no_faults_def)
  have c: "find (\<lambda>c. conv_id c = 0) (conversations long_chat) = Some ?c"
    by (simp add: long_chat_def)
  have l: "100 < length (filter (\<lambda>m. conversationId m = 0) (messages long_chat))"
    by (simp add: long_chat_def filter_numbered)
  from f(1) c have r: "Castable 0 = Castable 0 \<and> fail_findById (no_faults 200) = None
        \<and> find (\<lambda>c. conv_id c = 0) (conversations long_chat) = Some ?c
      \<or> Castable (0::nat) = Absent \<and> Absent = Castable r \<and> r \<noteq> [] \<and> fail_findOne (no_faults 200) = None
        \<and> find (all_participants ''alice'' r) (conversations long_chat) = Some ?c" for r
    by simp
  from l have l': "100 < length (filter (\<lambda>m. conversationId m = conv_id ?c) (messages long_chat))"
    by simp
  from load_messages_earliest_window [OF r f(2) l', of "''s1''"]
  have "\<exists>ms. load_messages (no_faults 200) ''s1'' ''alice'' (Castable 0) Absent long_chat =
        ([Socket_emit ''s1'' (Messages_loaded ms (Some 0))], long_chat)
      \<and> length ms = 100 \<and> sorted (map createdAt ms)"
    by auto
  with f c l show ?thesis by simp
qed

text \<open>
  With 101 messages created at times 1 to 101, the reply holds those of times 1
  to 100; the newest 100 are those of times 2 to 101.
\<close>

theorem load_messages_window_counterexample:
  "fst (load_messages (no_faults 200) ''s1'' ''alice'' (Castable 0) Absent long_chat)
     = [Socket_emit ''s1'' (Messages_loaded (map numbered [1..<101]) (Some 0))]
   \<and> most_recent_window 100 (messages long_chat) = map numbered [2..<102]
   \<and> map numbered [1..<101] \<noteq> map numbered [2..<102]"
proof -
  have "hd (map numbered [1..<101]) = numbered 1" "hd (map numbered [2..<102]) = numbered 2"
    by (simp_all add: hd_map upt_conv_Cons)
  moreover have "numbered 1 \<noteq> numbered 2" by (simp add: numbered_def)
  ultimately have "map numbered [1..<101] \<noteq> map numbered [2..<102]" by metis
  then show ?thesis by (simp add: long_chat_loaded long_chat_recent)
qed




end
